theory Spec2Isabelle
  imports Main
begin

section \<open>The query service of the sitemap plugin (server/services/query.js)\<close>

subsection \<open>Errors and the pattern service\<close>

text \<open>
  A JavaScript exception is a value of type \<open>error\<close>; a function that may throw returns
  \<open>error + 'a\<close>, with \<open>Inl\<close> for the exception. \<open>TypeError\<close> is what the runtime throws
  for \<^verbatim>\<open>Object.entries(undefined)\<close> and for a property read on \<^verbatim>\<open>undefined\<close>;
  \<open>PatternSyntaxError\<close> is the error of the pattern service.
\<close>

datatype error = TypeError | PatternSyntaxError

text \<open>
  \<^verbatim>\<open>getService('pattern')\<close>: the pattern service lives in another file
  (server/services/pattern.js). The query service only calls its two functions, so they
  are a parameter of every function below:
  \<^verbatim>\<open>getFieldsFromPattern(pattern, topLevel, relation)\<close> and
  \<^verbatim>\<open>getRelationsFromPattern(pattern)\<close>. An omitted \<^verbatim>\<open>relation\<close> is \<open>None\<close>.
\<close>

record pattern_service =
  getFieldsFromPattern :: "string \<Rightarrow> bool \<Rightarrow> string option \<Rightarrow> error + string list"
  getRelationsFromPattern :: "string \<Rightarrow> error + string list"

subsection \<open>Configuration\<close>

text \<open>
  A content type's configuration is \<^verbatim>\<open>{ languages: { [langcode]: { pattern } } }\<close>.
  \<open>languages\<close> holds the entries of that object in the order \<^verbatim>\<open>Object.entries\<close>
  yields them; \<open>None\<close> is a configuration object without the property.
  An absent (null or undefined) configuration is \<open>None :: content_type_config option\<close>.
\<close>

record language_config =
  pattern :: string

record content_type_config =
  languages :: "(string \<times> language_config) list option"

subsection \<open>getFieldsFromConfig\<close>

text \<open>
  \<^verbatim>\<open>[...new Set(fields)]\<close>: a Set keeps the first occurrence of every value, in
  insertion order. The first argument is the content of the Set so far.
\<close>

fun new_Set :: "'a list \<Rightarrow> 'a list \<Rightarrow> 'a list" where
  "new_Set seen [] = seen"
| "new_Set seen (x # xs) = new_Set (if x \<in> set seen then seen else seen @ [x]) xs"

text \<open>
  The loop over \<^verbatim>\<open>Object.entries(contentType['languages'])\<close>: every language's fields
  are pushed onto \<^verbatim>\<open>fields\<close> (here \<open>flds\<close>); an exception of the pattern service ends the loop.
\<close>

fun pushLanguageFields ::
  "pattern_service \<Rightarrow> bool \<Rightarrow> string option \<Rightarrow> (string \<times> language_config) list \<Rightarrow>
   string list \<Rightarrow> error + string list" where
  "pushLanguageFields svc topLevel relation [] flds = Inr flds"
| "pushLanguageFields svc topLevel relation ((langcode, lang) # rest) flds =
     (case getFieldsFromPattern svc (pattern lang) topLevel relation of
        Inl e \<Rightarrow> Inl e
      | Inr fs \<Rightarrow> pushLanguageFields svc topLevel relation rest (flds @ fs))"

text \<open>
  The block \<^verbatim>\<open>if (contentType) { ... }\<close>: the fields that come from the patterns.
  \<^verbatim>\<open>Object.entries\<close> of a missing \<open>languages\<close> property throws a TypeError.
\<close>

definition patternFields ::
  "pattern_service \<Rightarrow> content_type_config option \<Rightarrow> bool \<Rightarrow> string option \<Rightarrow>
   error + string list" where
  "patternFields svc contentType topLevel relation =
     (case contentType of
        None \<Rightarrow> Inr []
      | Some ct \<Rightarrow>
          (case languages ct of
             None \<Rightarrow> Inl TypeError
           | Some entries \<Rightarrow> pushLanguageFields svc topLevel relation entries []))"

text \<open>The fields pushed by the block \<^verbatim>\<open>if (topLevel) { ... }\<close>.\<close>

definition topLevelFields :: "bool \<Rightarrow> bool \<Rightarrow> string list" where
  "topLevelFields topLevel isLocalized =
     (if topLevel then (if isLocalized then [''locale''] else []) @ [''updatedAt''] else [])"

definition getFieldsFromConfig ::
  "pattern_service \<Rightarrow> content_type_config option \<Rightarrow> bool \<Rightarrow> bool \<Rightarrow> string option \<Rightarrow>
   error + string list" where
  "getFieldsFromConfig svc contentType topLevel isLocalized relation =
     (case patternFields svc contentType topLevel relation of
        Inl e \<Rightarrow> Inl e
      | Inr flds \<Rightarrow> Inr (new_Set [] (flds @ topLevelFields topLevel isLocalized)))"

subsection \<open>getRelationsFromConfig\<close>

text \<open>
  \<^verbatim>\<open>relationsObject\<close> is an object used as a dictionary: a map from property names to
  values. \<^verbatim>\<open>relationsObject[relation] = v\<close> on an object created by \<^verbatim>\<open>{}\<close> adds or
  replaces the own property, except for the key \<^verbatim>\<open>__proto__\<close>, where the inherited
  setter replaces the prototype and the object gets no own property.
\<close>

record relation_entry =
  rel_fields :: "string list"

type_synonym relations = "string \<rightharpoonup> relation_entry"

definition set_property :: "(string \<rightharpoonup> 'v) \<Rightarrow> string \<Rightarrow> 'v \<Rightarrow> (string \<rightharpoonup> 'v)" where
  "set_property obj key v = (if key = ''__proto__'' then obj else obj(key \<mapsto> v))"

text \<open>The inner loop \<^verbatim>\<open>relations.map((relation) => { ... })\<close>.\<close>

fun setRelations ::
  "pattern_service \<Rightarrow> content_type_config option \<Rightarrow> string list \<Rightarrow> relations \<Rightarrow>
   error + relations" where
  "setRelations svc contentType [] relationsObject = Inr relationsObject"
| "setRelations svc contentType (relation # rest) relationsObject =
     (case getFieldsFromConfig svc contentType False False (Some relation) of
        Inl e \<Rightarrow> Inl e
      | Inr fs \<Rightarrow>
          setRelations svc contentType rest
            (set_property relationsObject relation \<lparr>rel_fields = fs\<rparr>))"

text \<open>The outer loop over the languages.\<close>

fun collectRelations ::
  "pattern_service \<Rightarrow> content_type_config option \<Rightarrow> (string \<times> language_config) list \<Rightarrow>
   relations \<Rightarrow> error + relations" where
  "collectRelations svc contentType [] relationsObject = Inr relationsObject"
| "collectRelations svc contentType ((langcode, lang) # rest) relationsObject =
     (case getRelationsFromPattern svc (pattern lang) of
        Inl e \<Rightarrow> Inl e
      | Inr rels \<Rightarrow>
          (case setRelations svc contentType rels relationsObject of
             Inl e \<Rightarrow> Inl e
           | Inr obj \<Rightarrow> collectRelations svc contentType rest obj))"

definition getRelationsFromConfig ::
  "pattern_service \<Rightarrow> content_type_config option \<Rightarrow> error + relations" where
  "getRelationsFromConfig svc contentType =
     (case contentType of
        None \<Rightarrow> Inr Map.empty
      | Some ct \<Rightarrow>
          (case languages ct of
             None \<Rightarrow> Inl TypeError
           | Some entries \<Rightarrow> collectRelations svc contentType entries Map.empty))"

subsection \<open>getPages\<close>

text \<open>
  The plugin's configuration (\<^verbatim>\<open>config.excludeDrafts\<close>, \<^verbatim>\<open>config.contentTypes\<close>) and
  the schema of a content type as the runtime holds it in \<^verbatim>\<open>strapi.contentTypes\<close>:
  \<^verbatim>\<open>{ options: { draftAndPublish }, pluginOptions: { i18n: { localized } } }\<close>.
  Every property of the schema that the code reads may be missing (\<open>None\<close>).
\<close>

record plugin_config =
  excludeDrafts :: bool
  contentTypes :: "string \<rightharpoonup> content_type_config"

record schema_options =
  draftAndPublish :: "bool option"

record i18n_options =
  localized :: "bool option"

record plugin_options =
  i18n :: "i18n_options option"

record content_type_schema =
  options :: "schema_options option"
  pluginOptions :: "plugin_options option"

text \<open>
  The filter object. An attribute is filtered by an object of operators
  (\<^verbatim>\<open>$null\<close>, \<^verbatim>\<open>$notNull\<close>, \<^verbatim>\<open>$eq\<close>); \<^verbatim>\<open>{}\<close> is the empty list of operators.
  \<^verbatim>\<open>$or\<close> holds a list of filter objects. A filter object is the list of its
  properties.
\<close>

datatype js_value = JNull | JBool bool | JNum int

datatype operator = Op_null bool | Op_notNull bool | Op_eq js_value

datatype clause = Attribute string "operator list" | Or "clause list list"

type_synonym filters = "clause list"

text \<open>
  The values of \<^verbatim>\<open>populate\<close>: a relation's entry \<^verbatim>\<open>{ fields }\<close>, copied from the
  relations object by the spread, or the entry
  \<^verbatim>\<open>{ fields, populate: relations }\<close> written for \<^verbatim>\<open>localizations\<close>.
\<close>

datatype populate_entry =
  Relation relation_entry
| Localizations "string list" relations

record fetch_spec =
  q_where :: filters
  q_filters :: filters
  q_locale :: string
  q_fields :: "string list"
  q_populate :: "string \<rightharpoonup> populate_entry"
  q_orderBy :: string

text \<open>
  \<^verbatim>\<open>config.excludeDrafts && strapi.contentTypes[contentType].options.draftAndPublish\<close>:
  the right operand is evaluated only when the left one is truthy, and reading
  \<^verbatim>\<open>draftAndPublish\<close> of a missing \<^verbatim>\<open>options\<close> throws. The result is used as a
  condition only, so it is kept as its truth value.
\<close>

definition excludeDrafts_of :: "plugin_config \<Rightarrow> content_type_schema \<Rightarrow> error + bool" where
  "excludeDrafts_of config schema =
     (if excludeDrafts config then
        (case options schema of
           None \<Rightarrow> Inl TypeError
         | Some opts \<Rightarrow> Inr (draftAndPublish opts = Some True))
      else Inr False)"

text \<open>
  \<^verbatim>\<open>strapi.contentTypes[contentType].pluginOptions?.i18n?.localized\<close>: undefined as
  soon as one step is missing.
\<close>

definition isLocalized_of :: "content_type_schema \<Rightarrow> bool option" where
  "isLocalized_of schema =
     (case pluginOptions schema of
        None \<Rightarrow> None
      | Some po \<Rightarrow> (case i18n po of None \<Rightarrow> None | Some i \<Rightarrow> localized i))"

text \<open>
  The filter object of \<open>getPages\<close>. \<^verbatim>\<open>id ? { $eq: id } : {}\<close> tests the truthiness of
  the page id: undefined and the number 0 are falsy.
\<close>

definition page_filters :: "int option \<Rightarrow> bool \<Rightarrow> filters" where
  "page_filters page_id excl =
     [Or [[Attribute ''sitemap_exclude'' [Op_null True]],
          [Attribute ''sitemap_exclude'' [Op_eq (JBool False)]]],
      Attribute ''id''
        (case page_id of
           None \<Rightarrow> []
         | Some i \<Rightarrow> if i \<noteq> 0 then [Op_eq (JNum i)] else []),
      Attribute ''published_at'' (if excl then [Op_notNull True] else [])]"

text \<open>
  The object that \<open>getPages\<close> hands to \<^verbatim>\<open>noLimit\<close>. \<open>strapi_contentTypes\<close> is
  \<^verbatim>\<open>strapi.contentTypes\<close>; a content type that the runtime does not know is
  undefined, and reading a property of it throws. An undefined \<^verbatim>\<open>isLocalized\<close>
  takes the default \<^verbatim>\<open>false\<close> of the parameter. In the object literal
  \<^verbatim>\<open>{ localizations: ..., ...relations }\<close> the spread comes last, so a property of
  \<^verbatim>\<open>relations\<close> replaces a property of the same name written before it.
\<close>

definition getPages_query ::
  "pattern_service \<Rightarrow> (string \<rightharpoonup> content_type_schema) \<Rightarrow> plugin_config \<Rightarrow> string \<Rightarrow>
   int option \<Rightarrow> error + fetch_spec" where
  "getPages_query svc strapi_contentTypes config contentType page_id =
     (case strapi_contentTypes contentType of
        None \<Rightarrow> Inl TypeError
      | Some schema \<Rightarrow>
     (case excludeDrafts_of config schema of
        Inl e \<Rightarrow> Inl e
      | Inr excl \<Rightarrow>
     (case getRelationsFromConfig svc (contentTypes config contentType) of
        Inl e \<Rightarrow> Inl e
      | Inr rels \<Rightarrow>
     (case getFieldsFromConfig svc (contentTypes config contentType) True
             (isLocalized_of schema = Some True) None of
        Inl e \<Rightarrow> Inl e
      | Inr flds \<Rightarrow>
          Inr \<lparr>q_where = page_filters page_id excl,
               q_filters = page_filters page_id excl,
               q_locale = ''all'',
               q_fields = flds,
               q_populate =
                 [''localizations'' \<mapsto> Localizations flds rels] ++ (map_option Relation \<circ> rels),
               q_orderBy = ''id''\<rparr>))))"

text \<open>
  \<open>getPages\<close> returns what \<^verbatim>\<open>noLimit(strapi, contentType, query)\<close> returns; the
  paginated fetch is a parameter.
\<close>

definition getPages ::
  "pattern_service \<Rightarrow> (string \<Rightarrow> fetch_spec \<Rightarrow> error + 'pages) \<Rightarrow>
   (string \<rightharpoonup> content_type_schema) \<Rightarrow> plugin_config \<Rightarrow> string \<Rightarrow> int option \<Rightarrow>
   error + 'pages" where
  "getPages svc noLimit strapi_contentTypes config contentType page_id =
     (case getPages_query svc strapi_contentTypes config contentType page_id of
        Inl e \<Rightarrow> Inl e
      | Inr query \<Rightarrow> noLimit contentType query)"

text \<open>
  Modelled from the spec: how the external store reads a filter object (spec 4.4, step 4:
  the clauses of the object are required together, \<^verbatim>\<open>$or\<close> requires one of its
  alternatives, and an attribute with no operator is not constrained). A page record
  gives every attribute a value, \<open>JNull\<close> when it is null or absent.
\<close>

fun operator_holds :: "js_value \<Rightarrow> operator \<Rightarrow> bool" where
  "operator_holds v (Op_null b) = ((v = JNull) = b)"
| "operator_holds v (Op_notNull b) = ((v \<noteq> JNull) = b)"
| "operator_holds v (Op_eq x) = (v = x)"

fun clause_holds :: "(string \<Rightarrow> js_value) \<Rightarrow> clause \<Rightarrow> bool" where
  "clause_holds page (Attribute a ops) = list_all (operator_holds (page a)) ops"
| "clause_holds page (Or alternatives) = list_ex (list_all (clause_holds page)) alternatives"

definition filters_hold :: "(string \<Rightarrow> js_value) \<Rightarrow> filters \<Rightarrow> bool" where
  "filters_hold page fs = list_all (clause_holds page) fs"

subsection \<open>The sitemap and sitemap-cache tables\<close>

text \<open>
  Modelled from the spec: the persistence collaborator \<^verbatim>\<open>strapi.entityService\<close>
  (spec 6): a table of records with \<^verbatim>\<open>findMany(filters)\<close>, \<^verbatim>\<open>create(data)\<close>,
  \<^verbatim>\<open>update(id, data)\<close> and \<^verbatim>\<open>delete(id)\<close>. A table is the list of its records, each
  with its id, in the order \<^verbatim>\<open>findMany\<close> returns them, and the id that the next
  \<^verbatim>\<open>create\<close> assigns.
\<close>

record 'a table =
  rows :: "(nat \<times> 'a) list"
  next_id :: nat

definition findMany :: "('a \<Rightarrow> bool) \<Rightarrow> 'a table \<Rightarrow> (nat \<times> 'a) list" where
  "findMany matches t = filter (\<lambda>(i, d). matches d) (rows t)"

definition create :: "'a \<Rightarrow> 'a table \<Rightarrow> 'a table" where
  "create d t = t\<lparr>rows := rows t @ [(next_id t, d)], next_id := Suc (next_id t)\<rparr>"

definition update :: "nat \<Rightarrow> 'a \<Rightarrow> 'a table \<Rightarrow> 'a table" where
  "update i d t = t\<lparr>rows := map (\<lambda>(j, d'). if j = i then (j, d) else (j, d')) (rows t)\<rparr>"

definition delete :: "nat \<Rightarrow> 'a table \<Rightarrow> 'a table" where
  "delete i t = t\<lparr>rows := filter (\<lambda>(j, d). j \<noteq> i) (rows t)\<rparr>"

text \<open>
  A table of the store: ids are a primary key, and the id of the next record is new.
\<close>

definition wf_table :: "'a table \<Rightarrow> bool" where
  "wf_table t \<longleftrightarrow> distinct (map fst (rows t)) \<and> list_all (\<lambda>(i, d). i < next_id t) (rows t)"

text \<open>
  The records of \<^verbatim>\<open>plugin::sitemap.sitemap\<close> and \<^verbatim>\<open>plugin::sitemap.sitemap-cache\<close>
  (both have a property \<^verbatim>\<open>name\<close>), and the two tables of the store.
\<close>

record sitemap =
  sitemap_string :: string
  sitemap_name :: string
  sitemap_delta :: int

record sitemap_cache =
  sitemap_json :: string
  cache_name :: string

record store =
  sitemaps :: "sitemap table"
  sitemap_caches :: "sitemap_cache table"

text \<open>
  The filters of the \<^verbatim>\<open>findMany\<close> calls: \<^verbatim>\<open>{ name, delta }\<close> and \<^verbatim>\<open>{ name }\<close> on
  sitemaps, \<^verbatim>\<open>{ name }\<close> on sitemap caches.
\<close>

definition sitemap_name_delta :: "string \<Rightarrow> int \<Rightarrow> sitemap \<Rightarrow> bool" where
  "sitemap_name_delta name delta d \<longleftrightarrow> sitemap_name d = name \<and> sitemap_delta d = delta"

definition sitemap_named :: "string \<Rightarrow> sitemap \<Rightarrow> bool" where
  "sitemap_named name d \<longleftrightarrow> sitemap_name d = name"

definition cache_named :: "string \<Rightarrow> sitemap_cache \<Rightarrow> bool" where
  "cache_named name d \<longleftrightarrow> cache_name d = name"

definition createSitemap :: "string \<Rightarrow> string \<Rightarrow> int \<Rightarrow> store \<Rightarrow> store" where
  "createSitemap sitemapString name delta st =
     (let found = findMany (sitemap_name_delta name delta) (sitemaps st);
          st1 = (case found of
                   [] \<Rightarrow> st
                 | (i, d) # others \<Rightarrow> st\<lparr>sitemaps := delete i (sitemaps st)\<rparr>)
      in st1\<lparr>sitemaps :=
               create \<lparr>sitemap_string = sitemapString, sitemap_name = name, sitemap_delta = delta\<rparr>
                 (sitemaps st1)\<rparr>)"

definition getSitemap :: "string \<Rightarrow> int \<Rightarrow> store \<Rightarrow> (nat \<times> sitemap) option" where
  "getSitemap name delta st =
     (case findMany (sitemap_name_delta name delta) (sitemaps st) of
        [] \<Rightarrow> None
      | r # others \<Rightarrow> Some r)"

text \<open>
  \<open>deleteSitemap\<close> starts one \<^verbatim>\<open>delete\<close> per record found and awaits them all; each
  removes the record of one id, so the table at the end is the same in any order.
\<close>

definition deleteSitemap :: "string \<Rightarrow> store \<Rightarrow> store" where
  "deleteSitemap name st =
     (let found = findMany (sitemap_named name) (sitemaps st)
      in st\<lparr>sitemaps := fold (\<lambda>(i, d). delete i) found (sitemaps st)\<rparr>)"

definition createSitemapCache :: "string \<Rightarrow> string \<Rightarrow> store \<Rightarrow> store" where
  "createSitemapCache sitemapJson name st =
     (let found = findMany (cache_named name) (sitemap_caches st);
          st1 = (case found of
                   [] \<Rightarrow> st
                 | (i, d) # others \<Rightarrow> st\<lparr>sitemap_caches := delete i (sitemap_caches st)\<rparr>)
      in st1\<lparr>sitemap_caches :=
               create \<lparr>sitemap_json = sitemapJson, cache_name = name\<rparr> (sitemap_caches st1)\<rparr>)"

definition updateSitemapCache :: "string \<Rightarrow> string \<Rightarrow> store \<Rightarrow> store" where
  "updateSitemapCache sitemapJson name st =
     (case findMany (cache_named name) (sitemap_caches st) of
        [] \<Rightarrow> st
      | (i, d) # others \<Rightarrow>
          st\<lparr>sitemap_caches :=
               update i \<lparr>sitemap_json = sitemapJson, cache_name = name\<rparr> (sitemap_caches st)\<rparr>)"

definition getSitemapCache :: "string \<Rightarrow> store \<Rightarrow> (nat \<times> sitemap_cache) option" where
  "getSitemapCache name st =
     (case findMany (cache_named name) (sitemap_caches st) of
        [] \<Rightarrow> None
      | r # others \<Rightarrow> Some r)"

subsection \<open>A pattern service\<close>

text \<open>
  Modelled from the spec: the pattern service (server/services/pattern.js; spec 4.1 and
  4.2). A placeholder is the text between \<^verbatim>\<open>[\<close> and \<^verbatim>\<open>]\<close>; a bracket without
  its partner is a \<open>PatternSyntaxError\<close>. A placeholder is split at the dots. A
  placeholder of one segment is a top-level field. In a placeholder of more segments the
  first is a relation and the rest, joined again, is a field of that relation. The spec
  gives no way to tell the name of a relation from the name of a field in a placeholder
  of one segment, so such a placeholder is always read as a field.
\<close>

fun placeholders :: "string option \<Rightarrow> string \<Rightarrow> error + string list" where
  "placeholders None [] = Inr []"
| "placeholders (Some t) [] = Inl PatternSyntaxError"
| "placeholders None (c # cs) =
     (if c = CHR ''['' then placeholders (Some []) cs
      else if c = CHR '']'' then Inl PatternSyntaxError
      else placeholders None cs)"
| "placeholders (Some t) (c # cs) =
     (if c = CHR '']'' then
        (case placeholders None cs of Inl e \<Rightarrow> Inl e | Inr ts \<Rightarrow> Inr (t # ts))
      else if c = CHR ''['' then Inl PatternSyntaxError
      else placeholders (Some (t @ [c])) cs)"

fun split_dot :: "string \<Rightarrow> string list" where
  "split_dot [] = [[]]"
| "split_dot (c # cs) =
     (if c = CHR ''.'' then [] # split_dot cs
      else (case split_dot cs of [] \<Rightarrow> [[c]] | s # ss \<Rightarrow> (c # s) # ss))"

fun join_dot :: "string list \<Rightarrow> string" where
  "join_dot [] = []"
| "join_dot [s] = s"
| "join_dot (s # ss) = s @ ''.'' @ join_dot ss"

definition parse :: "string \<Rightarrow> error + string list list" where
  "parse p = (case placeholders None p of Inl e \<Rightarrow> Inl e | Inr ts \<Rightarrow> Inr (map split_dot ts))"

fun token_fields :: "bool \<Rightarrow> string option \<Rightarrow> string list \<Rightarrow> string list" where
  "token_fields topLevelOnly relationFilter [] = []"
| "token_fields topLevelOnly relationFilter [field] =
     (if relationFilter = None then [field] else [])"
| "token_fields topLevelOnly relationFilter (relation # remainder) =
     (case relationFilter of
        None \<Rightarrow> if topLevelOnly then [] else [join_dot (relation # remainder)]
      | Some r \<Rightarrow> if r = relation then [join_dot remainder] else [])"

fun token_relation :: "string list \<Rightarrow> string list" where
  "token_relation (relation # field # remainder) = [relation]"
| "token_relation segments = []"

definition fieldsFromPattern :: "string \<Rightarrow> bool \<Rightarrow> string option \<Rightarrow> error + string list" where
  "fieldsFromPattern p topLevelOnly relationFilter =
     (case parse p of
        Inl e \<Rightarrow> Inl e
      | Inr tokens \<Rightarrow>
          Inr (new_Set [] (concat (map (token_fields topLevelOnly relationFilter) tokens))))"

definition relationsFromPattern :: "string \<Rightarrow> error + string list" where
  "relationsFromPattern p =
     (case parse p of
        Inl e \<Rightarrow> Inl e
      | Inr tokens \<Rightarrow> Inr (new_Set [] (concat (map token_relation tokens))))"

definition spec_service :: pattern_service where
  "spec_service =
     \<lparr>getFieldsFromPattern = fieldsFromPattern, getRelationsFromPattern = relationsFromPattern\<rparr>"

subsection \<open>Example configurations\<close>

text \<open>
  The configuration of the spec's example (spec 8), one whose two languages name the same
  field, and one whose pattern names the field \<^verbatim>\<open>locale\<close>.
\<close>

definition example_config :: content_type_config where
  "example_config =
     \<lparr>languages = Some [(''en'', \<lparr>pattern = ''/posts/[title]''\<rparr>),
                        (''fr'', \<lparr>pattern = ''/articles/[titre]/[category.name]''\<rparr>)]\<rparr>"

definition shared_field_config :: content_type_config where
  "shared_field_config =
     \<lparr>languages = Some [(''en'', \<lparr>pattern = ''/posts/[title]/[category.slug]''\<rparr>),
                        (''fr'', \<lparr>pattern = ''/articles/[title]/[category.name]''\<rparr>)]\<rparr>"


text \<open>
  A configuration with a relation that only the first language names and one that both
  languages name, and one whose pattern reads a field of a relation \<^verbatim>\<open>__proto__\<close>.
\<close>

definition two_relations_config :: content_type_config where
  "two_relations_config =
     \<lparr>languages = Some [(''en'', \<lparr>pattern = ''/[author.slug]/[category.name]''\<rparr>),
                        (''fr'', \<lparr>pattern = ''/[titre]/[category.slug]''\<rparr>)]\<rparr>"

definition proto_config :: content_type_config where
  "proto_config = \<lparr>languages = Some [(''en'', \<lparr>pattern = ''/[slug]/[__proto__.name]''\<rparr>)]\<rparr>"

text \<open>
  A configuration whose pattern reads a field of the relation \<^verbatim>\<open>localizations\<close>, the
  plugin configurations that hold the examples, schemas of a content type (with both
  flags, with \<^verbatim>\<open>options\<close> but no flag, with neither \<^verbatim>\<open>options\<close> nor
  \<^verbatim>\<open>pluginOptions\<close>), and two page records.
\<close>

definition localizations_config :: content_type_config where
  "localizations_config =
     \<lparr>languages = Some [(''en'', \<lparr>pattern = ''/[slug]/[localizations.slug]''\<rparr>)]\<rparr>"

definition example_plugin_config :: plugin_config where
  "example_plugin_config =
     \<lparr>excludeDrafts = True, contentTypes = [''api::post.post'' \<mapsto> example_config]\<rparr>"

definition localizations_plugin_config :: plugin_config where
  "localizations_plugin_config =
     \<lparr>excludeDrafts = True, contentTypes = [''api::post.post'' \<mapsto> localizations_config]\<rparr>"

definition full_schema :: content_type_schema where
  "full_schema =
     \<lparr>options = Some \<lparr>draftAndPublish = Some True\<rparr>,
      pluginOptions = Some \<lparr>i18n = Some \<lparr>localized = Some True\<rparr>\<rparr>\<rparr>"

definition flagless_schema :: content_type_schema where
  "flagless_schema = \<lparr>options = Some \<lparr>draftAndPublish = None\<rparr>, pluginOptions = None\<rparr>"

definition bare_schema :: content_type_schema where
  "bare_schema = \<lparr>options = None, pluginOptions = None\<rparr>"

definition page_42 :: "string \<Rightarrow> js_value" where
  "page_42 a =
     (if a = ''id'' then JNum 42 else if a = ''published_at'' then JNum 1700000000 else JNull)"

definition page_7 :: "string \<Rightarrow> js_value" where
  "page_7 a =
     (if a = ''id'' then JNum 7 else if a = ''published_at'' then JNum 1700000000 else JNull)"


text \<open>
  A store with three sitemaps and one cache, and a store whose cache table holds two
  records of the same name.
\<close>

definition example_store :: store where
  "example_store =
     \<lparr>sitemaps =
        \<lparr>rows = [(1, \<lparr>sitemap_string = ''<a/>'', sitemap_name = ''default'', sitemap_delta = 0\<rparr>),
                 (2, \<lparr>sitemap_string = ''<b/>'', sitemap_name = ''default'', sitemap_delta = 1\<rparr>),
                 (3, \<lparr>sitemap_string = ''<c/>'', sitemap_name = ''other'', sitemap_delta = 0\<rparr>)],
         next_id = 4\<rparr>,
      sitemap_caches =
        \<lparr>rows = [(1, \<lparr>sitemap_json = ''{}'', cache_name = ''other''\<rparr>)], next_id = 2\<rparr>\<rparr>"

definition duplicate_store :: store where
  "duplicate_store =
     \<lparr>sitemaps = \<lparr>rows = [], next_id = 1\<rparr>,
      sitemap_caches =
        \<lparr>rows = [(1, \<lparr>sitemap_json = ''{}'', cache_name = ''default''\<rparr>),
                 (2, \<lparr>sitemap_json = ''[]'', cache_name = ''default''\<rparr>)],
         next_id = 3\<rparr>\<rparr>"


section \<open>Properties\<close>

subsection \<open>The Set conversion\<close>

lemma set_new_Set: "set (new_Set seen xs) = set seen \<union> set xs"
  by (induction xs arbitrary: seen) auto

lemma distinct_new_Set: "distinct seen \<Longrightarrow> distinct (new_Set seen xs)"
  by (induction xs arbitrary: seen) auto

subsection \<open>getFieldsFromConfig\<close>

text \<open>
  When the loop over the languages ends without an exception, the pattern service has
  answered for every language, and the fields are those pushed before together with the
  fields of every language.
\<close>

lemma pushLanguageFields_Inr:
  "pushLanguageFields svc topLevel relation entries acc = Inr fs \<Longrightarrow>
     (\<forall>(lc, l) \<in> set entries. \<exists>xs. getFieldsFromPattern svc (pattern l) topLevel relation = Inr xs) \<and>
     set fs = set acc \<union>
       {f. \<exists>(lc, l) \<in> set entries. \<exists>xs.
             getFieldsFromPattern svc (pattern l) topLevel relation = Inr xs \<and> f \<in> set xs}"
proof (induction entries arbitrary: acc)
  case Nil
  then show ?case by simp
next
  case (Cons entry entries)
  obtain lc l where entry: "entry = (lc, l)" by (cases entry)
  from Cons.prems entry obtain xs where
    xs: "getFieldsFromPattern svc (pattern l) topLevel relation = Inr xs" and
    rest: "pushLanguageFields svc topLevel relation entries (acc @ xs) = Inr fs"
    by (auto split: sum.splits)
  from Cons.IH [OF rest] xs entry show ?case by auto
qed

lemma getFieldsFromConfig_Inr:
  "getFieldsFromConfig svc contentType topLevel isLocalized relation = Inr fs \<Longrightarrow>
     \<exists>pf. patternFields svc contentType topLevel relation = Inr pf \<and>
          fs = new_Set [] (pf @ topLevelFields topLevel isLocalized)"
  by (auto simp: getFieldsFromConfig_def split: sum.splits)


lemma example_config_topLevel:
  "getFieldsFromConfig spec_service (Some example_config) True True None =
     Inr [''title'', ''titre'', ''locale'', ''updatedAt'']"
  by (simp add: example_config_def getFieldsFromConfig_def patternFields_def
        spec_service_def fieldsFromPattern_def parse_def topLevelFields_def)



text \<open>
  C2. For every pattern service, configuration, \<open>topLevel\<close>, \<open>isLocalized\<close> and
  \<open>relation\<close>: the sequence that \<open>getFieldsFromConfig\<close> returns has no repeated value.
\<close>

theorem getFieldsFromConfig_distinct:
  "getFieldsFromConfig svc contentType topLevel isLocalized relation = Inr fs \<Longrightarrow> distinct fs"
  by (auto dest!: getFieldsFromConfig_Inr simp: distinct_new_Set)

lemma shared_field_config_topLevel:
  "getFieldsFromConfig spec_service (Some shared_field_config) True True None =
     Inr [''title'', ''locale'', ''updatedAt'']"
  by (simp add: shared_field_config_def getFieldsFromConfig_def patternFields_def
        spec_service_def fieldsFromPattern_def parse_def topLevelFields_def)

theorem getFieldsFromConfig_distinct_witness:
  "getFieldsFromConfig spec_service (Some shared_field_config) True True None =
     Inr [''title'', ''locale'', ''updatedAt''] \<and>
   distinct [''title'', ''locale'', ''updatedAt'']"
  using getFieldsFromConfig_distinct [OF shared_field_config_topLevel]
    shared_field_config_topLevel
  by simp

text \<open>
  C4 (amended). For an absent configuration, and for a configuration whose \<open>languages\<close>
  object is present and empty, \<open>getFieldsFromConfig\<close> returns without an exception and
  without calling the pattern service: there are no pattern fields, and the result holds
  only the fields of the \<open>topLevel\<close> block (none when \<open>topLevel = False\<close>).
\<close>

theorem getFieldsFromConfig_absent_or_empty:
  "getFieldsFromConfig svc None topLevel isLocalized relation =
     Inr (if topLevel then (if isLocalized then [''locale''] else []) @ [''updatedAt''] else []) \<and>
   getFieldsFromConfig svc (Some \<lparr>languages = Some []\<rparr>) topLevel isLocalized relation =
     Inr (if topLevel then (if isLocalized then [''locale''] else []) @ [''updatedAt''] else []) \<and>
   patternFields svc None topLevel relation = Inr [] \<and>
   patternFields svc (Some \<lparr>languages = Some []\<rparr>) topLevel relation = Inr []"
  by (simp add: getFieldsFromConfig_def patternFields_def topLevelFields_def)

text \<open>
  The claim as stated fails for a configuration object without \<open>languages\<close>:
  \<^verbatim>\<open>Object.entries(undefined)\<close> throws.
\<close>

theorem getFieldsFromConfig_missing_languages_counterexample:
  "getFieldsFromConfig spec_service (Some \<lparr>languages = None\<rparr>) False False None = Inl TypeError"
  by (simp add: getFieldsFromConfig_def patternFields_def)

subsection \<open>getRelationsFromConfig\<close>

lemma setRelations_Inr:
  "setRelations svc contentType rels obj = Inr obj' \<Longrightarrow> obj' k = Some e \<Longrightarrow>
     obj k = Some e \<or>
     (k \<in> set rels \<and> getFieldsFromConfig svc contentType False False (Some k) = Inr (rel_fields e))"
proof (induction rels arbitrary: obj)
  case Nil
  then show ?case by simp
next
  case (Cons r rels)
  from Cons.prems(1) obtain fs where
    fs: "getFieldsFromConfig svc contentType False False (Some r) = Inr fs" and
    rest: "setRelations svc contentType rels (set_property obj r \<lparr>rel_fields = fs\<rparr>) = Inr obj'"
    by (auto split: sum.splits)
  from Cons.IH [OF rest Cons.prems(2)] fs show ?case
    by (auto simp: set_property_def split: if_splits)
qed

lemma collectRelations_Inr:
  "collectRelations svc contentType entries obj = Inr obj' \<Longrightarrow> obj' k = Some e \<Longrightarrow>
     obj k = Some e \<or>
     ((\<exists>(lc, l) \<in> set entries. \<exists>rs. getRelationsFromPattern svc (pattern l) = Inr rs \<and> k \<in> set rs) \<and>
      getFieldsFromConfig svc contentType False False (Some k) = Inr (rel_fields e))"
proof (induction entries arbitrary: obj)
  case Nil
  then show ?case by simp
next
  case (Cons entry entries)
  obtain lc l where entry: "entry = (lc, l)" by (cases entry)
  from Cons.prems(1) entry obtain rs mid where
    rs: "getRelationsFromPattern svc (pattern l) = Inr rs" and
    mid: "setRelations svc contentType rs obj = Inr mid" and
    rest: "collectRelations svc contentType entries mid = Inr obj'"
    by (auto split: sum.splits)
  from Cons.IH [OF rest Cons.prems(2)] show ?case
  proof
    assume "mid k = Some e"
    from setRelations_Inr [OF mid this] rs entry show ?thesis by auto
  next
    assume "(\<exists>(lc, l) \<in> set entries. \<exists>rs. getRelationsFromPattern svc (pattern l) = Inr rs \<and> k \<in> set rs) \<and>
      getFieldsFromConfig svc contentType False False (Some k) = Inr (rel_fields e)"
    then show ?thesis by auto
  qed
qed

lemma getFieldsFromConfig_scoped:
  assumes "getFieldsFromConfig svc (Some ct) False False relation = Inr fs"
    and "languages ct = Some entries"
  shows "(\<forall>(lc, l) \<in> set entries. \<exists>xs. getFieldsFromPattern svc (pattern l) False relation = Inr xs) \<and>
     set fs = {f. \<exists>(lc, l) \<in> set entries. \<exists>xs.
             getFieldsFromPattern svc (pattern l) False relation = Inr xs \<and> f \<in> set xs}"
proof -
  from getFieldsFromConfig_Inr [OF assms(1)] obtain pf where
    pf: "patternFields svc (Some ct) False relation = Inr pf" and
    fs: "fs = new_Set [] (pf @ topLevelFields False False)" by blast
  from pf assms(2) have "pushLanguageFields svc False relation entries [] = Inr pf"
    by (simp add: patternFields_def)
  from pushLanguageFields_Inr [OF this] fs show ?thesis
    by (simp add: set_new_Set topLevelFields_def)
qed

text \<open>
  The keys of the map: every relation that the pattern service finds in the pattern of a
  language, but \<^verbatim>\<open>__proto__\<close>.
\<close>

lemma dom_set_property:
  "dom (set_property obj k v) = (if k = ''__proto__'' then dom obj else insert k (dom obj))"
  by (simp add: set_property_def)

lemma setRelations_dom:
  "setRelations svc contentType rels obj = Inr obj' \<Longrightarrow>
     dom obj' = dom obj \<union> (set rels - {''__proto__''})"
proof (induction rels arbitrary: obj)
  case Nil
  then show ?case by simp
next
  case (Cons r rels)
  from Cons.prems obtain fs where
    rest: "setRelations svc contentType rels (set_property obj r \<lparr>rel_fields = fs\<rparr>) = Inr obj'"
    by (auto split: sum.splits)
  from Cons.IH [OF rest] show ?case
    by (auto simp: dom_set_property split: if_splits)
qed

lemma collectRelations_dom:
  "collectRelations svc contentType entries obj = Inr obj' \<Longrightarrow>
     dom obj' = dom obj \<union>
       {k. k \<noteq> ''__proto__'' \<and>
           (\<exists>(lc, l) \<in> set entries. \<exists>rs. getRelationsFromPattern svc (pattern l) = Inr rs \<and> k \<in> set rs)}"
proof (induction entries arbitrary: obj)
  case Nil
  then show ?case by simp
next
  case (Cons entry entries)
  obtain lc l where entry: "entry = (lc, l)" by (cases entry)
  from Cons.prems entry obtain rs mid where
    rs: "getRelationsFromPattern svc (pattern l) = Inr rs" and
    mid: "setRelations svc contentType rs obj = Inr mid" and
    rest: "collectRelations svc contentType entries mid = Inr obj'"
    by (auto split: sum.splits)
  from Cons.IH [OF rest] setRelations_dom [OF mid] rs entry show ?case
    by auto
qed

text \<open>
  C3 (amended). For every pattern service and configuration, when
  \<open>getRelationsFromConfig\<close> returns a map: if \<open>k\<close> is one of its keys, then \<open>k\<close> is among
  the relations that the pattern service finds in the pattern of at least one language,
  and the entry of \<open>k\<close> holds the result of \<open>getFieldsFromConfig\<close> scoped to \<open>k\<close>: the
  pattern service has been run with \<open>relation = k\<close> on the pattern of every language, and
  the entry's fields are exactly the fields found in all of them together. Every
  relation found in the pattern of at least one language is a key of the map, unless its
  name is \<^verbatim>\<open>__proto__\<close>, which is never a key.
\<close>

theorem getRelationsFromConfig_keys:
  assumes "getRelationsFromConfig svc contentType = Inr rels"
  shows "(\<forall>k e. rels k = Some e \<longrightarrow>
       (\<exists>ct entries. contentType = Some ct \<and> languages ct = Some entries \<and>
          (\<exists>(lc, l) \<in> set entries. \<exists>rs.
              getRelationsFromPattern svc (pattern l) = Inr rs \<and> k \<in> set rs) \<and>
          getFieldsFromConfig svc contentType False False (Some k) = Inr (rel_fields e) \<and>
          (\<forall>(lc, l) \<in> set entries. \<exists>xs.
              getFieldsFromPattern svc (pattern l) False (Some k) = Inr xs) \<and>
          set (rel_fields e) =
            {f. \<exists>(lc, l) \<in> set entries. \<exists>xs.
                  getFieldsFromPattern svc (pattern l) False (Some k) = Inr xs \<and> f \<in> set xs})) \<and>
     (\<forall>ct entries k.
        contentType = Some ct \<and> languages ct = Some entries \<and> k \<noteq> ''__proto__'' \<and>
        (\<exists>(lc, l) \<in> set entries. \<exists>rs.
            getRelationsFromPattern svc (pattern l) = Inr rs \<and> k \<in> set rs) \<longrightarrow>
        (\<exists>e. rels k = Some e)) \<and>
     rels ''__proto__'' = None"
proof (intro conjI allI impI)
  fix k e
  assume k: "rels k = Some e"
  from assms k obtain ct entries where
    ct: "contentType = Some ct" and entries: "languages ct = Some entries" and
    coll: "collectRelations svc contentType entries Map.empty = Inr rels"
    by (auto simp: getRelationsFromConfig_def split: option.splits)
  from collectRelations_Inr [OF coll k] have
    found: "\<exists>(lc, l) \<in> set entries. \<exists>rs. getRelationsFromPattern svc (pattern l) = Inr rs \<and> k \<in> set rs" and
    flds: "getFieldsFromConfig svc contentType False False (Some k) = Inr (rel_fields e)"
    by auto
  from getFieldsFromConfig_scoped [OF flds [unfolded ct] entries] ct entries found flds
  show "\<exists>ct entries. contentType = Some ct \<and> languages ct = Some entries \<and>
          (\<exists>(lc, l) \<in> set entries. \<exists>rs.
              getRelationsFromPattern svc (pattern l) = Inr rs \<and> k \<in> set rs) \<and>
          getFieldsFromConfig svc contentType False False (Some k) = Inr (rel_fields e) \<and>
          (\<forall>(lc, l) \<in> set entries. \<exists>xs.
              getFieldsFromPattern svc (pattern l) False (Some k) = Inr xs) \<and>
          set (rel_fields e) =
            {f. \<exists>(lc, l) \<in> set entries. \<exists>xs.
                  getFieldsFromPattern svc (pattern l) False (Some k) = Inr xs \<and> f \<in> set xs}"
    by simp
next
  fix ct entries k
  assume a: "contentType = Some ct \<and> languages ct = Some entries \<and> k \<noteq> ''__proto__'' \<and>
        (\<exists>(lc, l) \<in> set entries. \<exists>rs.
            getRelationsFromPattern svc (pattern l) = Inr rs \<and> k \<in> set rs)"
  with assms have coll: "collectRelations svc contentType entries Map.empty = Inr rels"
    by (simp add: getRelationsFromConfig_def)
  from collectRelations_dom [OF coll] a have "k \<in> dom rels" by auto
  then show "\<exists>e. rels k = Some e" by auto
next
  show "rels ''__proto__'' = None"
  proof (cases contentType)
    case None
    with assms show ?thesis by (auto simp: getRelationsFromConfig_def)
  next
    case (Some ct)
    with assms obtain entries where
      coll: "collectRelations svc contentType entries Map.empty = Inr rels"
      by (auto simp: getRelationsFromConfig_def split: option.splits)
    from collectRelations_dom [OF coll] have "''__proto__'' \<notin> dom rels" by auto
    then show ?thesis by auto
  qed
qed

lemma example_config_relations:
  "getRelationsFromConfig spec_service (Some example_config) =
     Inr [''category'' \<mapsto> \<lparr>rel_fields = [''name'']\<rparr>]"
  by (simp add: example_config_def getRelationsFromConfig_def getFieldsFromConfig_def
        patternFields_def spec_service_def fieldsFromPattern_def relationsFromPattern_def
        parse_def topLevelFields_def set_property_def)

lemma two_relations_config_relations:
  "getRelationsFromConfig spec_service (Some two_relations_config) =
     Inr [''author'' \<mapsto> \<lparr>rel_fields = [''slug'']\<rparr>,
          ''category'' \<mapsto> \<lparr>rel_fields = [''name'', ''slug'']\<rparr>]"
  by (simp add: two_relations_config_def getRelationsFromConfig_def getFieldsFromConfig_def
        patternFields_def spec_service_def fieldsFromPattern_def relationsFromPattern_def
        parse_def topLevelFields_def set_property_def)

theorem getRelationsFromConfig_keys_witness:
  "getRelationsFromConfig spec_service (Some two_relations_config) =
     Inr [''author'' \<mapsto> \<lparr>rel_fields = [''slug'']\<rparr>,
          ''category'' \<mapsto> \<lparr>rel_fields = [''name'', ''slug'']\<rparr>] \<and>
   relationsFromPattern ''/[author.slug]/[category.name]'' = Inr [''author'', ''category''] \<and>
   relationsFromPattern ''/[titre]/[category.slug]'' = Inr [''category''] \<and>
   getFieldsFromConfig spec_service (Some two_relations_config) False False (Some ''author'') =
     Inr [''slug''] \<and>
   getFieldsFromConfig spec_service (Some two_relations_config) False False (Some ''category'') =
     Inr [''name'', ''slug'']"
proof -
  note keys = getRelationsFromConfig_keys [OF two_relations_config_relations]
  have author:
    "[''author'' \<mapsto> \<lparr>rel_fields = [''slug'']\<rparr>,
      ''category'' \<mapsto> \<lparr>rel_fields = [''name'', ''slug'']\<rparr>] ''author'' =
     Some \<lparr>rel_fields = [''slug'']\<rparr>"
    by simp
  have category:
    "[''author'' \<mapsto> \<lparr>rel_fields = [''slug'']\<rparr>,
      ''category'' \<mapsto> \<lparr>rel_fields = [''name'', ''slug'']\<rparr>] ''category'' =
     Some \<lparr>rel_fields = [''name'', ''slug'']\<rparr>"
    by simp
  from keys [THEN conjunct1, rule_format, OF author] have
    "getFieldsFromConfig spec_service (Some two_relations_config) False False (Some ''author'') =
       Inr [''slug'']"
    by auto
  moreover from keys [THEN conjunct1, rule_format, OF category] have
    "getFieldsFromConfig spec_service (Some two_relations_config) False False (Some ''category'') =
       Inr [''name'', ''slug'']"
    by auto
  ultimately show ?thesis
    using two_relations_config_relations by (simp add: relationsFromPattern_def parse_def)
qed

text \<open>
  The claim as stated fails for a relation named \<^verbatim>\<open>__proto__\<close>: it is found in the
  pattern and has fields, but the assignment to \<^verbatim>\<open>relationsObject['__proto__']\<close> adds
  no property, so the relation gets no field list.
\<close>

theorem getRelationsFromConfig_proto_counterexample:
  "getRelationsFromPattern spec_service ''/[slug]/[__proto__.name]'' = Inr [''__proto__''] \<and>
   getFieldsFromConfig spec_service (Some proto_config) False False (Some ''__proto__'') =
     Inr [''name''] \<and>
   getRelationsFromConfig spec_service (Some proto_config) = Inr Map.empty"
  by (simp add: proto_config_def getRelationsFromConfig_def getFieldsFromConfig_def
        patternFields_def spec_service_def fieldsFromPattern_def relationsFromPattern_def
        parse_def topLevelFields_def set_property_def)


subsection \<open>getPages\<close>

lemma getPages_query_Inr:
  assumes "getPages_query svc strapi_contentTypes config contentType page_id = Inr q"
  shows "\<exists>schema excl rels flds.
     strapi_contentTypes contentType = Some schema \<and>
     excludeDrafts_of config schema = Inr excl \<and>
     getRelationsFromConfig svc (contentTypes config contentType) = Inr rels \<and>
     getFieldsFromConfig svc (contentTypes config contentType) True
       (isLocalized_of schema = Some True) None = Inr flds \<and>
     q = \<lparr>q_where = page_filters page_id excl, q_filters = page_filters page_id excl,
          q_locale = ''all'', q_fields = flds,
          q_populate = [''localizations'' \<mapsto> Localizations flds rels] ++ (map_option Relation \<circ> rels),
          q_orderBy = ''id''\<rparr>"
  using assms unfolding getPages_query_def
  by (simp split: option.splits sum.splits)

lemma excludeDrafts_of_Inr:
  "excludeDrafts_of config schema = Inr excl \<Longrightarrow>
     excl \<longleftrightarrow> excludeDrafts config \<and> (\<exists>opts. options schema = Some opts \<and> draftAndPublish opts = Some True)"
  by (auto simp: excludeDrafts_of_def split: if_splits option.splits)

lemma filters_hold_page_filters:
  "filters_hold page (page_filters page_id excl) \<longleftrightarrow>
     (page ''sitemap_exclude'' = JNull \<or> page ''sitemap_exclude'' = JBool False) \<and>
     (\<forall>i. page_id = Some i \<and> i \<noteq> 0 \<longrightarrow> page ''id'' = JNum i) \<and>
     (excl \<longrightarrow> page ''published_at'' \<noteq> JNull)"
  by (cases page_id) (auto simp: filters_hold_def page_filters_def)

text \<open>
  C5 (amended). Whenever \<open>getPages\<close> assembles its query, \<^verbatim>\<open>where\<close> and \<^verbatim>\<open>filters\<close> are
  the same filter object, and a page record satisfies it exactly when: its exclusion flag
  is null or equals false; and, if the id argument is given and is not 0, its identifier
  equals that id; and, if draft exclusion is configured and the content type has
  \<^verbatim>\<open>draftAndPublish\<close>, its published timestamp is not null. With id 42 the identifier
  must equal 42.
\<close>

theorem getPages_query_filters:
  assumes "getPages_query svc strapi_contentTypes config contentType page_id = Inr q"
  shows "q_where q = q_filters q \<and>
     (\<exists>schema. strapi_contentTypes contentType = Some schema \<and>
        (\<forall>page. filters_hold page (q_filters q) \<longleftrightarrow>
           (page ''sitemap_exclude'' = JNull \<or> page ''sitemap_exclude'' = JBool False) \<and>
           (\<forall>i. page_id = Some i \<and> i \<noteq> 0 \<longrightarrow> page ''id'' = JNum i) \<and>
           (excludeDrafts config \<and>
              (\<exists>opts. options schema = Some opts \<and> draftAndPublish opts = Some True) \<longrightarrow>
            page ''published_at'' \<noteq> JNull)))"
proof -
  from getPages_query_Inr [OF assms] obtain schema excl where
    schema: "strapi_contentTypes contentType = Some schema" and
    excl: "excludeDrafts_of config schema = Inr excl" and
    w: "q_where q = page_filters page_id excl" and f: "q_filters q = page_filters page_id excl"
    by auto
  from excludeDrafts_of_Inr [OF excl] schema w f show ?thesis
    by (simp add: filters_hold_page_filters)
qed

lemma example_query_42:
  "\<exists>q. getPages_query spec_service [''api::post.post'' \<mapsto> full_schema] example_plugin_config
          ''api::post.post'' (Some 42) = Inr q \<and>
       q_filters q =
         [Or [[Attribute ''sitemap_exclude'' [Op_null True]],
              [Attribute ''sitemap_exclude'' [Op_eq (JBool False)]]],
          Attribute ''id'' [Op_eq (JNum 42)],
          Attribute ''published_at'' [Op_notNull True]]"
  by (simp add: getPages_query_def example_plugin_config_def full_schema_def
        excludeDrafts_of_def isLocalized_of_def example_config_relations
        example_config_topLevel page_filters_def)

theorem getPages_query_filters_witness:
  "map_sum id q_filters
     (getPages_query spec_service [''api::post.post'' \<mapsto> full_schema] example_plugin_config
        ''api::post.post'' (Some 42)) =
     Inr [Or [[Attribute ''sitemap_exclude'' [Op_null True]],
              [Attribute ''sitemap_exclude'' [Op_eq (JBool False)]]],
          Attribute ''id'' [Op_eq (JNum 42)],
          Attribute ''published_at'' [Op_notNull True]] \<and>
   filters_hold page_42
     [Or [[Attribute ''sitemap_exclude'' [Op_null True]],
          [Attribute ''sitemap_exclude'' [Op_eq (JBool False)]]],
      Attribute ''id'' [Op_eq (JNum 42)],
      Attribute ''published_at'' [Op_notNull True]] \<and>
   \<not> filters_hold page_7
     [Or [[Attribute ''sitemap_exclude'' [Op_null True]],
          [Attribute ''sitemap_exclude'' [Op_eq (JBool False)]]],
      Attribute ''id'' [Op_eq (JNum 42)],
      Attribute ''published_at'' [Op_notNull True]]"
proof -
  from example_query_42 obtain q where
    q: "getPages_query spec_service [''api::post.post'' \<mapsto> full_schema] example_plugin_config
          ''api::post.post'' (Some 42) = Inr q" and
    f: "q_filters q =
         [Or [[Attribute ''sitemap_exclude'' [Op_null True]],
              [Attribute ''sitemap_exclude'' [Op_eq (JBool False)]]],
          Attribute ''id'' [Op_eq (JNum 42)],
          Attribute ''published_at'' [Op_notNull True]]"
    by blast
  from getPages_query_filters [OF q] have
    "filters_hold page_42 (q_filters q)" and "\<not> filters_hold page_7 (q_filters q)"
    by (simp_all add: page_42_def page_7_def full_schema_def)
  with q f show ?thesis by simp
qed

text \<open>
  The claim as stated fails for the id 0, which is falsy: the filter object then has
  \<^verbatim>\<open>id: {}\<close> and a page with another identifier satisfies it.
\<close>

theorem getPages_query_id_zero_counterexample:
  "map_sum id q_filters
     (getPages_query spec_service [''api::post.post'' \<mapsto> full_schema] example_plugin_config
        ''api::post.post'' (Some 0)) =
     Inr [Or [[Attribute ''sitemap_exclude'' [Op_null True]],
              [Attribute ''sitemap_exclude'' [Op_eq (JBool False)]]],
          Attribute ''id'' [],
          Attribute ''published_at'' [Op_notNull True]] \<and>
   page_7 ''id'' = JNum 7 \<and>
   filters_hold page_7
     [Or [[Attribute ''sitemap_exclude'' [Op_null True]],
          [Attribute ''sitemap_exclude'' [Op_eq (JBool False)]]],
      Attribute ''id'' [],
      Attribute ''published_at'' [Op_notNull True]]"
  by (simp add: getPages_query_def example_plugin_config_def full_schema_def
        excludeDrafts_of_def isLocalized_of_def example_config_relations
        example_config_topLevel page_filters_def filters_hold_def page_7_def)

text \<open>
  A flag that is missing from a schema whose \<^verbatim>\<open>options\<close> object is present, or
  missing at any step of \<^verbatim>\<open>pluginOptions?.i18n?.localized\<close>, is read as false.
\<close>

lemma missing_flags_are_false:
  "excludeDrafts_of config \<lparr>options = Some \<lparr>draftAndPublish = None\<rparr>, pluginOptions = po\<rparr> = Inr False"
  "isLocalized_of \<lparr>options = opts, pluginOptions = None\<rparr> \<noteq> Some True"
  "isLocalized_of \<lparr>options = opts, pluginOptions = Some \<lparr>i18n = None\<rparr>\<rparr> \<noteq> Some True"
  "isLocalized_of \<lparr>options = opts, pluginOptions = Some \<lparr>i18n = Some \<lparr>localized = None\<rparr>\<rparr>\<rparr> \<noteq> Some True"
  by (simp_all add: excludeDrafts_of_def isLocalized_of_def)

lemma example_config_not_localized:
  "getFieldsFromConfig spec_service (Some example_config) True False None =
     Inr [''title'', ''titre'', ''updatedAt'']"
  by (simp add: example_config_def getFieldsFromConfig_def patternFields_def
        spec_service_def fieldsFromPattern_def parse_def topLevelFields_def)

lemma getPages_query_flagless:
  "map_sum id (\<lambda>q. (q_filters q, q_fields q))
     (getPages_query spec_service [''api::post.post'' \<mapsto> flagless_schema] example_plugin_config
        ''api::post.post'' None) =
   Inr ([Or [[Attribute ''sitemap_exclude'' [Op_null True]],
             [Attribute ''sitemap_exclude'' [Op_eq (JBool False)]]],
         Attribute ''id'' [],
         Attribute ''published_at'' []],
        [''title'', ''titre'', ''updatedAt''])"
  by (simp add: getPages_query_def example_plugin_config_def flagless_schema_def
        excludeDrafts_of_def isLocalized_of_def example_config_relations
        example_config_not_localized page_filters_def)

text \<open>
  C6. The claim: a schema that lacks the draft/publish or the localization flag is read
  as not draft-aware and not localized, and nothing is thrown. The code at a schema
  without an \<^verbatim>\<open>options\<close> object, when \<^verbatim>\<open>config.excludeDrafts\<close> is set: reading
  \<^verbatim>\<open>options.draftAndPublish\<close> throws a TypeError and no query is assembled.
\<close>

theorem getPages_query_missing_options:
  "getPages_query svc [contentType \<mapsto> \<lparr>options = None, pluginOptions = po\<rparr>]
     \<lparr>excludeDrafts = True, contentTypes = cts\<rparr> contentType page_id = Inl TypeError"
  by (simp add: getPages_query_def excludeDrafts_of_def)

lemma getPages_query_bare_schema:
  "getPages_query spec_service [''api::post.post'' \<mapsto> bare_schema] example_plugin_config
     ''api::post.post'' None = Inl TypeError"
  by (simp add: getPages_query_def excludeDrafts_of_def bare_schema_def example_plugin_config_def)

text \<open>
  C7 (amended). Whenever \<open>getPages\<close> assembles its query: the locale is \<^verbatim>\<open>all\<close>; the
  fields are those of \<open>getFieldsFromConfig\<close> with \<open>topLevel = True\<close>; every relation of
  the relation map has its entry in \<^verbatim>\<open>populate\<close>; and, unless a relation is itself
  named \<^verbatim>\<open>localizations\<close>, \<^verbatim>\<open>populate.localizations\<close> carries the same fields and the
  relation map.
\<close>

theorem getPages_query_shape:
  assumes "getPages_query svc strapi_contentTypes config contentType page_id = Inr q"
  shows "\<exists>schema rels.
     strapi_contentTypes contentType = Some schema \<and>
     getRelationsFromConfig svc (contentTypes config contentType) = Inr rels \<and>
     getFieldsFromConfig svc (contentTypes config contentType) True
       (isLocalized_of schema = Some True) None = Inr (q_fields q) \<and>
     q_locale q = ''all'' \<and>
     (\<forall>r e. rels r = Some e \<longrightarrow> q_populate q r = Some (Relation e)) \<and>
     (rels ''localizations'' = None \<longrightarrow>
        q_populate q ''localizations'' = Some (Localizations (q_fields q) rels))"
proof -
  from getPages_query_Inr [OF assms] obtain schema rels flds where
    schema: "strapi_contentTypes contentType = Some schema" and
    rels: "getRelationsFromConfig svc (contentTypes config contentType) = Inr rels" and
    flds: "getFieldsFromConfig svc (contentTypes config contentType) True
       (isLocalized_of schema = Some True) None = Inr flds" and
    q: "q_fields q = flds" "q_locale q = ''all''"
       "q_populate q = [''localizations'' \<mapsto> Localizations flds rels] ++ (map_option Relation \<circ> rels)"
    by auto
  have "\<forall>r e. rels r = Some e \<longrightarrow> q_populate q r = Some (Relation e)"
    by (simp add: q map_add_def)
  moreover have "rels ''localizations'' = None \<longrightarrow>
        q_populate q ''localizations'' = Some (Localizations (q_fields q) rels)"
    by (simp add: q map_add_def)
  ultimately show ?thesis using schema rels flds q by auto
qed

lemma example_query_shape:
  "\<exists>q. getPages_query spec_service [''api::post.post'' \<mapsto> full_schema] example_plugin_config
          ''api::post.post'' None = Inr q \<and>
       q_fields q = [''title'', ''titre'', ''locale'', ''updatedAt'']"
  by (simp add: getPages_query_def example_plugin_config_def full_schema_def
        excludeDrafts_of_def isLocalized_of_def example_config_relations
        example_config_topLevel page_filters_def)

theorem getPages_query_shape_witness:
  "map_sum id (\<lambda>q. (q_locale q, q_fields q, q_populate q ''category'', q_populate q ''localizations''))
     (getPages_query spec_service [''api::post.post'' \<mapsto> full_schema] example_plugin_config
        ''api::post.post'' None) =
   Inr (''all'', [''title'', ''titre'', ''locale'', ''updatedAt''],
        Some (Relation \<lparr>rel_fields = [''name'']\<rparr>),
        Some (Localizations [''title'', ''titre'', ''locale'', ''updatedAt'']
                [''category'' \<mapsto> \<lparr>rel_fields = [''name'']\<rparr>]))"
proof -
  from example_query_shape obtain q where
    q: "getPages_query spec_service [''api::post.post'' \<mapsto> full_schema] example_plugin_config
          ''api::post.post'' None = Inr q" and
    f: "q_fields q = [''title'', ''titre'', ''locale'', ''updatedAt'']"
    by blast
  from getPages_query_shape [OF q] f have
    "q_locale q = ''all''"
    "q_populate q ''category'' = Some (Relation \<lparr>rel_fields = [''name'']\<rparr>)"
    "q_populate q ''localizations'' =
       Some (Localizations [''title'', ''titre'', ''locale'', ''updatedAt'']
               [''category'' \<mapsto> \<lparr>rel_fields = [''name'']\<rparr>])"
    by (auto simp: example_plugin_config_def example_config_relations)
  with q f show ?thesis by simp
qed

text \<open>
  The claim as stated fails when a pattern reads a field of the relation
  \<^verbatim>\<open>localizations\<close>: the spread of the relation map comes after the
  \<^verbatim>\<open>localizations\<close> property and replaces it by the relation's entry.
\<close>

lemma localizations_config_relations:
  "getRelationsFromConfig spec_service (Some localizations_config) =
     Inr [''localizations'' \<mapsto> \<lparr>rel_fields = [''slug'']\<rparr>]"
  by (simp add: localizations_config_def getRelationsFromConfig_def getFieldsFromConfig_def
        patternFields_def spec_service_def fieldsFromPattern_def relationsFromPattern_def
        parse_def topLevelFields_def set_property_def)

lemma localizations_config_topLevel:
  "getFieldsFromConfig spec_service (Some localizations_config) True True None =
     Inr [''slug'', ''locale'', ''updatedAt'']"
  by (simp add: localizations_config_def getFieldsFromConfig_def patternFields_def
        spec_service_def fieldsFromPattern_def parse_def topLevelFields_def)

theorem getPages_query_localizations_counterexample:
  "map_sum id (\<lambda>q. (q_fields q, q_populate q ''localizations''))
     (getPages_query spec_service [''api::post.post'' \<mapsto> full_schema] localizations_plugin_config
        ''api::post.post'' None) =
   Inr ([''slug'', ''locale'', ''updatedAt''], Some (Relation \<lparr>rel_fields = [''slug'']\<rparr>))"
  by (simp add: getPages_query_def localizations_plugin_config_def full_schema_def
        excludeDrafts_of_def isLocalized_of_def localizations_config_relations
        localizations_config_topLevel map_add_def)

subsection \<open>The sitemap and sitemap-cache tables\<close>

lemma findMany_create:
  "findMany p (create d t) = findMany p t @ (if p d then [(next_id t, d)] else [])"
  by (simp add: findMany_def create_def)

lemma findMany_delete:
  "findMany p (delete i t) = filter (\<lambda>(j, d). j \<noteq> i) (findMany p t)"
  by (auto simp: findMany_def delete_def intro: filter_cong)

lemma next_id_delete: "next_id (delete i t) = next_id t"
  by (simp add: delete_def)

lemma findMany_at_most_one:
  "length (findMany p t) \<le> 1 \<Longrightarrow> findMany p t = [] \<or> (\<exists>r. findMany p t = [r])"
  by (cases "findMany p t") (auto simp: Suc_le_eq)

lemma createSitemapCache_one:
  assumes "length (findMany (cache_named name) (sitemap_caches st)) \<le> 1"
  shows "findMany (cache_named name) (sitemap_caches (createSitemapCache sitemapJson name st)) =
     [(next_id (sitemap_caches st), \<lparr>sitemap_json = sitemapJson, cache_name = name\<rparr>)]"
  using findMany_at_most_one [OF assms]
  by (auto simp: createSitemapCache_def Let_def findMany_create findMany_delete next_id_delete
        cache_named_def)

lemma createSitemap_one:
  assumes "length (findMany (sitemap_name_delta name delta) (sitemaps st)) \<le> 1"
  shows "findMany (sitemap_name_delta name delta)
       (sitemaps (createSitemap sitemapString name delta st)) =
     [(next_id (sitemaps st),
       \<lparr>sitemap_string = sitemapString, sitemap_name = name, sitemap_delta = delta\<rparr>)]"
  using findMany_at_most_one [OF assms]
  by (auto simp: createSitemap_def Let_def findMany_create findMany_delete next_id_delete
        sitemap_name_delta_def)

text \<open>
  C8 (amended). For every name and every store state that holds at most one cache record
  of that name: after \<open>createSitemapCache\<close> has been called twice with that name, the
  store holds exactly one cache record of that name, the one of the second call; each
  call deletes the record found, if any, before it inserts the new one. Likewise
  \<open>createSitemap\<close> for the key (name, delta).
\<close>

theorem create_twice_one_record:
  "(length (findMany (cache_named name) (sitemap_caches st)) \<le> 1 \<longrightarrow>
      (\<exists>i. findMany (cache_named name)
              (sitemap_caches (createSitemapCache json2 name (createSitemapCache json1 name st))) =
            [(i, \<lparr>sitemap_json = json2, cache_name = name\<rparr>)])) \<and>
   (length (findMany (sitemap_name_delta name delta) (sitemaps st)) \<le> 1 \<longrightarrow>
      (\<exists>i. findMany (sitemap_name_delta name delta)
              (sitemaps (createSitemap string2 name delta (createSitemap string1 name delta st))) =
            [(i, \<lparr>sitemap_string = string2, sitemap_name = name, sitemap_delta = delta\<rparr>)]))"
proof (intro conjI impI)
  assume "length (findMany (cache_named name) (sitemap_caches st)) \<le> 1"
  from createSitemapCache_one [OF this, of json1]
  have "length (findMany (cache_named name) (sitemap_caches (createSitemapCache json1 name st))) \<le> 1"
    by simp
  from createSitemapCache_one [OF this, of json2]
  show "\<exists>i. findMany (cache_named name)
              (sitemap_caches (createSitemapCache json2 name (createSitemapCache json1 name st))) =
            [(i, \<lparr>sitemap_json = json2, cache_name = name\<rparr>)]"
    by blast
next
  assume "length (findMany (sitemap_name_delta name delta) (sitemaps st)) \<le> 1"
  from createSitemap_one [OF this, of string1]
  have "length (findMany (sitemap_name_delta name delta)
      (sitemaps (createSitemap string1 name delta st))) \<le> 1"
    by simp
  from createSitemap_one [OF this, of string2]
  show "\<exists>i. findMany (sitemap_name_delta name delta)
              (sitemaps (createSitemap string2 name delta (createSitemap string1 name delta st))) =
            [(i, \<lparr>sitemap_string = string2, sitemap_name = name, sitemap_delta = delta\<rparr>)]"
    by blast
qed

lemma example_store_twice:
  "findMany (cache_named ''default'')
     (sitemap_caches (createSitemapCache ''[2]'' ''default''
        (createSitemapCache ''[1]'' ''default'' example_store))) =
     [(3, \<lparr>sitemap_json = ''[2]'', cache_name = ''default''\<rparr>)]"
  "findMany (sitemap_name_delta ''default'' 0)
     (sitemaps (createSitemap ''<2/>'' ''default'' 0
        (createSitemap ''<1/>'' ''default'' 0 example_store))) =
     [(5, \<lparr>sitemap_string = ''<2/>'', sitemap_name = ''default'', sitemap_delta = 0\<rparr>)]"
  by (simp_all add: example_store_def createSitemapCache_def createSitemap_def findMany_def
        create_def delete_def cache_named_def sitemap_name_delta_def)

theorem create_twice_one_record_witness:
  "length (findMany (cache_named ''default'') (sitemap_caches example_store)) \<le> 1 \<and>
   length (findMany (cache_named ''default'')
     (sitemap_caches (createSitemapCache ''[2]'' ''default''
        (createSitemapCache ''[1]'' ''default'' example_store)))) = 1 \<and>
   length (findMany (sitemap_name_delta ''default'' 0) (sitemaps example_store)) \<le> 1 \<and>
   length (findMany (sitemap_name_delta ''default'' 0)
     (sitemaps (createSitemap ''<2/>'' ''default'' 0
        (createSitemap ''<1/>'' ''default'' 0 example_store)))) = 1"
proof -
  have c: "length (findMany (cache_named ''default'') (sitemap_caches example_store)) \<le> 1"
    by (simp add: example_store_def findMany_def cache_named_def)
  have s: "length (findMany (sitemap_name_delta ''default'' 0) (sitemaps example_store)) \<le> 1"
    by (simp add: example_store_def findMany_def sitemap_name_delta_def)
  from create_twice_one_record [of "''default''" example_store "''[2]''" "''[1]''" 0 "''<2/>''" "''<1/>''"] c s
  show ?thesis by auto
qed

text \<open>
  The claim as stated fails for a store state with two cache records of the name: each
  call deletes only the first record found, so two records remain.
\<close>

theorem create_twice_duplicates_counterexample:
  "findMany (cache_named ''default'')
     (sitemap_caches (createSitemapCache ''[2]'' ''default''
        (createSitemapCache ''[1]'' ''default'' duplicate_store))) =
     [(3, \<lparr>sitemap_json = ''[1]'', cache_name = ''default''\<rparr>),
      (4, \<lparr>sitemap_json = ''[2]'', cache_name = ''default''\<rparr>)]"
  by (simp add: duplicate_store_def createSitemapCache_def findMany_def
        create_def delete_def cache_named_def)

text \<open>
  \<open>createSitemapCache\<close> keeps the names of the cache table unique, so the store states
  reached from an empty table by it hold at most one record of every name.
\<close>

lemma createSitemapCache_keeps_names_unique:
  assumes "\<And>n. length (findMany (cache_named n) (sitemap_caches st)) \<le> 1"
  shows "length (findMany (cache_named n)
           (sitemap_caches (createSitemapCache sitemapJson name st))) \<le> 1"
proof (cases "n = name")
  case True
  with createSitemapCache_one [OF assms, of name sitemapJson] show ?thesis by simp
next
  case False
  have "length (filter (\<lambda>(j, d). j \<noteq> i) (findMany (cache_named n) (sitemap_caches st))) \<le> 1" for i
    using assms [of n] length_filter_le le_trans by blast
  with False assms [of n] show ?thesis
    by (auto simp: createSitemapCache_def Let_def findMany_create findMany_delete cache_named_def
          split: list.splits)
qed

text \<open>
  C9. For every name and every store state without a cache record of that name,
  \<open>updateSitemapCache\<close> returns the store as it was: no record is created or modified,
  and nothing is thrown.
\<close>

theorem updateSitemapCache_no_record:
  "findMany (cache_named name) (sitemap_caches st) = [] \<Longrightarrow>
     updateSitemapCache sitemapJson name st = st"
  by (simp add: updateSitemapCache_def)

theorem updateSitemapCache_no_record_witness:
  "findMany (cache_named ''default'') (sitemap_caches example_store) = [] \<and>
   updateSitemapCache ''[1]'' ''default'' example_store = example_store"
proof -
  have "findMany (cache_named ''default'') (sitemap_caches example_store) = []"
    by (simp add: example_store_def findMany_def cache_named_def)
  with updateSitemapCache_no_record [OF this] show ?thesis by simp
qed

lemma rows_fold_delete:
  "rows (fold (\<lambda>(i, d). delete i) found t) = filter (\<lambda>(j, d). j \<notin> fst ` set found) (rows t) \<and>
   next_id (fold (\<lambda>(i, d). delete i) found t) = next_id t \<and>
   table.more (fold (\<lambda>(i, d). delete i) found t) = table.more t"
proof (induction found arbitrary: t)
  case Nil
  then show ?case by simp
next
  case (Cons r found)
  obtain i d where r: "r = (i, d)" by (cases r)
  have "filter (\<lambda>(j, d). j \<notin> fst ` set found) (filter (\<lambda>(j, d). j \<noteq> i) (rows t)) =
      filter (\<lambda>(j, d). j \<noteq> i \<and> j \<notin> fst ` set found) (rows t)"
    by (auto intro: filter_cong)
  with Cons.IH [of "delete i t"] r show ?case
    by (simp add: delete_def)
qed

lemma found_ids:
  assumes "distinct (map fst xs)" and "(j, d) \<in> set xs"
  shows "j \<in> fst ` set (filter (\<lambda>(i, d). p d) xs) \<longleftrightarrow> p d"
proof
  assume "j \<in> fst ` set (filter (\<lambda>(i, d). p d) xs)"
  then obtain d' where d': "(j, d') \<in> set xs" "p d'" by auto
  from assms d'(1) have "d' = d" by (meson eq_key_imp_eq_value)
  with d'(2) show "p d" by simp
next
  assume "p d"
  with assms(2) show "j \<in> fst ` set (filter (\<lambda>(i, d). p d) xs)" by force
qed

text \<open>
  C10. For every name and every store state: after \<open>deleteSitemap\<close> no sitemap record of
  that name is left, whatever its delta, and the next id and the cache table are
  unchanged. The ids being a primary key of the table, the records left are exactly the
  records of other names, unchanged and in their order.
\<close>

theorem deleteSitemap_removes_name:
  "findMany (sitemap_named name) (sitemaps (deleteSitemap name st)) = [] \<and>
   next_id (sitemaps (deleteSitemap name st)) = next_id (sitemaps st) \<and>
   sitemap_caches (deleteSitemap name st) = sitemap_caches st \<and>
   (wf_table (sitemaps st) \<longrightarrow>
      rows (sitemaps (deleteSitemap name st)) =
        filter (\<lambda>(i, d). sitemap_name d \<noteq> name) (rows (sitemaps st)))"
proof -
  let ?found = "findMany (sitemap_named name) (sitemaps st)"
  have rows: "rows (sitemaps (deleteSitemap name st)) =
      filter (\<lambda>(j, d). j \<notin> fst ` set ?found) (rows (sitemaps st))"
    by (simp add: deleteSitemap_def Let_def rows_fold_delete)
  have none: "findMany (sitemap_named name) (sitemaps (deleteSitemap name st)) = []"
    unfolding findMany_def rows by (force simp: filter_empty_conv)
  have others: "rows (sitemaps (deleteSitemap name st)) =
      filter (\<lambda>(i, d). sitemap_name d \<noteq> name) (rows (sitemaps st))"
    if wf: "wf_table (sitemaps st)"
  proof -
    from wf have dist: "distinct (map fst (rows (sitemaps st)))"
      by (simp add: wf_table_def)
    have "(case x of (j, d) \<Rightarrow> j \<notin> fst ` set ?found) =
          (case x of (i, d) \<Rightarrow> sitemap_name d \<noteq> name)"
      if "x \<in> set (rows (sitemaps st))" for x
    proof -
      obtain j d where x: "x = (j, d)" by (cases x)
      from that x have "(j, d) \<in> set (rows (sitemaps st))" by simp
      from found_ids [OF dist this, of "sitemap_named name"] show ?thesis
        by (simp add: x findMany_def sitemap_named_def)
    qed
    then have "filter (\<lambda>(j, d). j \<notin> fst ` set ?found) (rows (sitemaps st)) =
        filter (\<lambda>(i, d). sitemap_name d \<noteq> name) (rows (sitemaps st))"
      by (rule filter_cong [OF refl])
    with rows show ?thesis by simp
  qed
  from none others show ?thesis
    by (simp add: deleteSitemap_def Let_def rows_fold_delete)
qed

theorem deleteSitemap_removes_name_witness:
  "wf_table (sitemaps example_store) \<and>
   length (findMany (sitemap_named ''default'') (sitemaps example_store)) = 2 \<and>
   rows (sitemaps (deleteSitemap ''default'' example_store)) =
     [(3, \<lparr>sitemap_string = ''<c/>'', sitemap_name = ''other'', sitemap_delta = 0\<rparr>)] \<and>
   findMany (sitemap_named ''default'') (sitemaps (deleteSitemap ''default'' example_store)) = []"
proof -
  have wf: "wf_table (sitemaps example_store)"
    by (simp add: wf_table_def example_store_def)
  from deleteSitemap_removes_name [of "''default''" example_store] wf show ?thesis
    by (simp add: example_store_def findMany_def sitemap_named_def)
qed

end
